theory Spec2Isabelle
  imports Main "HOL-Library.Word"
begin

section \<open>Errors\<close>

text \<open>
  The sentinel errors declared with \<^verbatim>\<open>errors.New\<close> in the packages under study are
  constructors; \<open>Errorf\<close> is an error built by \<^verbatim>\<open>fmt.Errorf\<close> or \<^verbatim>\<open>errors.Errorf\<close>
  from its formatted message, and \<open>ExternalError\<close> is an error handed back by a
  collaborator (database, payload converter, JSON encoder, event stream, fold), named
  by its message.
\<close>

datatype error =
    ErrEmptyStreamName
  | ErrNoPayloadConverter
  | ErrNoAggregateStreamStrategy
  | ErrNoCreateTableQueries
  | ErrNoDBConnect
  | ErrNoMessageFactory
  | ErrTableAlreadyExists
  | ErrTableNameEmpty
  | ErrInsufficientMoney
  | Errorf string
  | ExternalError string

text \<open>
  The method \<^verbatim>\<open>Error()\<close>: the message of an error, as \<^verbatim>\<open>%s\<close> prints it. The source
  gives \<open>ErrTableAlreadyExists\<close> and \<open>ErrTableNameEmpty\<close> the same text; they stay
  two values.
\<close>

fun Error :: "error \<Rightarrow> string" where
  "Error ErrEmptyStreamName = ''stream name cannot be empty''"
| "Error ErrNoPayloadConverter = ''payload converter should be provided''"
| "Error ErrNoAggregateStreamStrategy = ''no aggregate stream strategy provided''"
| "Error ErrNoCreateTableQueries = ''create table queries are not provided''"
| "Error ErrNoDBConnect = ''no DB connection provided''"
| "Error ErrNoMessageFactory = ''sql message factory should be provided''"
| "Error ErrTableAlreadyExists = ''table name could not be empty''"
| "Error ErrTableNameEmpty = ''table name could not be empty''"
| "Error ErrInsufficientMoney = ''insufficient money''"
| "Error (Errorf s) = s"
| "Error (ExternalError s) = s"

section \<open>Strings of the standard library\<close>

text \<open>
  A Go string is a sequence of bytes, here a \<^typ>\<open>string\<close>. \<^verbatim>\<open>strings.ToLower\<close> has
  two paths: a string of ASCII bytes only is lowered byte by byte (and returned as it is
  when it has no upper-case letter); any other string goes through
  \<^verbatim>\<open>Map(unicode.ToLower, s)\<close>, which depends on the Unicode tables of the standard
  library and is the parameter \<open>unicodeLower\<close>.
\<close>

definition isASCII :: "char \<Rightarrow> bool" where
  "isASCII c = ((of_char c :: nat) < 128)"

definition isUpper :: "char \<Rightarrow> bool" where
  "isUpper c = (65 \<le> (of_char c :: nat) \<and> (of_char c :: nat) \<le> 90)"

definition asciiLower :: "char \<Rightarrow> char" where
  "asciiLower c = (if isUpper c then char_of ((of_char c :: nat) + 32) else c)"

definition ToLower :: "(string \<Rightarrow> string) \<Rightarrow> string \<Rightarrow> string" where
  "ToLower unicodeLower s =
     (if list_all isASCII s
      then (if \<not> list_ex isUpper s then s else map asciiLower s)
      else unicodeLower s)"

text \<open>
  The class \<^verbatim>\<open>[a-z0-9_]\<close> of the pattern \<^verbatim>\<open>[^a-z0-9_]+\<close>, by its three ranges.
\<close>

definition allowed :: "char \<Rightarrow> bool" where
  "allowed c =
     (let n = (of_char c :: nat)
      in (97 \<le> n \<and> n \<le> 122) \<or> (48 \<le> n \<and> n \<le> 57) \<or> n = 95)"

text \<open>
  \<^verbatim>\<open>regNotAllowed.ReplaceAllString(name, "")\<close>: scanning from the left, every maximal
  run of characters outside the class is a match of \<^verbatim>\<open>[^a-z0-9_]+\<close> and is replaced
  by the empty string. The pattern works on runes; every byte of a rune beyond ASCII,
  and every byte that is no valid UTF-8, is outside the class, so the scan by bytes
  removes the same text.
\<close>

function replaceNotAllowed :: "string \<Rightarrow> string" where
  "replaceNotAllowed [] = []"
| "replaceNotAllowed (c # cs) =
     (if allowed c then c # replaceNotAllowed cs
      else replaceNotAllowed (dropWhile (\<lambda>x. \<not> allowed x) cs))"
  by pat_completeness auto
termination
  by (relation "measure length") (auto simp: le_imp_less_Suc length_dropWhile_le)

text \<open>
  \<^verbatim>\<open>regLastUnderScores.ReplaceAllString(name, "")\<close>: the leftmost position from which
  one or more underscores run to the end of the text is the only match of \<^verbatim>\<open>_+$\<close>;
  it is replaced by the empty string.
\<close>

fun replaceLastUnderScores :: "string \<Rightarrow> string" where
  "replaceLastUnderScores [] = []"
| "replaceLastUnderScores (c # cs) =
     (if c = CHR ''_'' \<and> list_all (\<lambda>x. x = CHR ''_'') cs then []
      else c # replaceLastUnderScores cs)"

section \<open>The aggregate stream strategy\<close>

text \<open>
  \<^verbatim>\<open>SingleStreamStrategy.GenerateTableName\<close>. Both patterns are constants that compile, so
  the two error returns after \<^verbatim>\<open>regexp.Compile\<close> are never taken.
\<close>

definition GenerateTableName :: "(string \<Rightarrow> string) \<Rightarrow> string \<Rightarrow> error + string" where
  "GenerateTableName unicodeLower streamName =
     (if length streamName = 0 then Inl ErrEmptyStreamName
      else
        let name = ToLower unicodeLower streamName;
            name = replaceNotAllowed name;
            name = replaceLastUnderScores name
        in Inr (''events_'' @ name))"

text \<open>
  \<^verbatim>\<open>EventStore.tableName\<close>, over the strategy's \<^verbatim>\<open>GenerateTableName\<close> method.
\<close>

definition tableName :: "(string \<Rightarrow> error + string) \<Rightarrow> string \<Rightarrow> error + string" where
  "tableName generateTableName s =
     (case generateTableName s of
        Inl err \<Rightarrow> Inl err
      | Inr tableName \<Rightarrow>
          if length tableName = 0 then Inl ErrTableNameEmpty else Inr tableName)"


text \<open>
  Decimal text of a number that is not negative, as \<^verbatim>\<open>strconv.Itoa\<close> and the verb
  \<^verbatim>\<open>%d\<close> print it, digit by digit from the table of digits. The sources format
  counts, indices and an unsigned limit only.
\<close>

definition digits :: string where
  "digits = ''0123456789''"

function Itoa :: "nat \<Rightarrow> string" where
  "Itoa n =
     (if n < 10 then [digits ! n]
      else Itoa (n div 10) @ [digits ! (n mod 10)])"
  by pat_completeness auto
termination
  by (relation "measure id") auto

declare Itoa.simps [simp del]

text \<open>\<^verbatim>\<open>strings.Join(elems, sep)\<close>.\<close>

fun Join :: "string list \<Rightarrow> string \<Rightarrow> string" where
  "Join [] sep = []"
| "Join [x] sep = x"
| "Join (x # y # ys) sep = x @ sep @ Join (y # ys) sep"

section \<open>Messages and statement arguments\<close>

type_synonym UUID = "128 word"
type_synonym int64 = "64 word"
type_synonym uint = "64 word"

text \<open>
  A message, by the four getters of the \<^verbatim>\<open>Message\<close> interface (the fields of
  \<^verbatim>\<open>mocks.DummyMessage\<close>). Payload, metadata and time are left open.
\<close>

record ('p, 'md, 't) Message =
  UUID :: UUID
  Payload :: 'p
  Metadata :: 'md
  CreatedAt :: 't

text \<open>
  The values of type \<^verbatim>\<open>interface{}\<close> handed to the database as statement arguments:
  what \<^verbatim>\<open>PrepareData\<close> appends, the \<^verbatim>\<open>fromNumber\<close> of \<^verbatim>\<open>Load\<close>, the value of a
  matcher constraint and the table name of the existence query.
\<close>

datatype ('v, 't) arg =
    ArgUUID UUID
  | ArgString string
  | ArgBytes string
  | ArgTime 't
  | ArgInt64 int64
  | ArgValue 'v

text \<open>\<^verbatim>\<open>SingleStreamStrategy.ColumnNames\<close>.\<close>

definition ColumnNames :: "string list" where
  "ColumnNames = [''event_id'', ''event_name'', ''payload'', ''metadata'', ''created_at'']"

text \<open>
  \<^verbatim>\<open>SingleStreamStrategy.PrepareData\<close>. The converter is an interface value whose call may
  have effects, so \<open>convertPayload\<close> passes a state \<open>'c\<close> through; \<^verbatim>\<open>json.Marshal\<close> on
  the metadata is the parameter \<open>marshal\<close>. The loop over the messages carries the
  slice \<open>out\<close>; an error return carries no slice (\<^verbatim>\<open>nil, err\<close>).
\<close>

fun PrepareData_loop ::
  "('p \<Rightarrow> 'c \<Rightarrow> (error + string \<times> string) \<times> 'c) \<Rightarrow> ('md \<Rightarrow> error + string) \<Rightarrow>
   ('p, 'md, 't) Message list \<Rightarrow> ('v, 't) arg list \<Rightarrow> 'c \<Rightarrow> (error + ('v, 't) arg list) \<times> 'c"
where
  "PrepareData_loop convertPayload marshal [] out c = (Inr out, c)"
| "PrepareData_loop convertPayload marshal (msg # messages) out c =
     (case convertPayload (Payload msg) c of
        (Inl err, c') \<Rightarrow> (Inl err, c')
      | (Inr (payloadType, payloadData), c') \<Rightarrow>
          (case marshal (Metadata msg) of
             Inl err \<Rightarrow> (Inl err, c')
           | Inr meta \<Rightarrow>
               PrepareData_loop convertPayload marshal messages
                 (out @ [ArgUUID (UUID msg), ArgString payloadType, ArgBytes payloadData,
                         ArgBytes meta, ArgTime (CreatedAt msg)])
                 c'))"

definition PrepareData ::
  "('p \<Rightarrow> 'c \<Rightarrow> (error + string \<times> string) \<times> 'c) \<Rightarrow> ('md \<Rightarrow> error + string) \<Rightarrow>
   ('p, 'md, 't) Message list \<Rightarrow> 'c \<Rightarrow> (error + ('v, 't) arg list) \<times> 'c"
where
  "PrepareData convertPayload marshal messages c =
     PrepareData_loop convertPayload marshal messages [] c"

text \<open>
  A converter without effects of its own, with the payloads it was called on recorded in
  the order of the calls: the state is that record.
\<close>

definition recording :: "('p \<Rightarrow> error + string \<times> string) \<Rightarrow> 'p \<Rightarrow> 'p list \<Rightarrow> (error + string \<times> string) \<times> 'p list" where
  "recording convert payload calls = (convert payload, calls @ [payload])"

text \<open>
  \<^verbatim>\<open>SingleStreamStrategy.CreateSchema\<close>: three statements, the table and its two indexes.
  \<^verbatim>\<open>quoteIdentifier\<close> is a helper of the package that is not among the sources and is a
  parameter.
\<close>

definition CreateSchema :: "(string \<Rightarrow> string) \<Rightarrow> string \<Rightarrow> string list" where
  "CreateSchema quoteIdentifier table =
     (let uniqueIndexName = quoteIdentifier
            (table @ ''_unique_index___aggregate_type__aggregate_id__aggregate_version'');
          indexName = quoteIdentifier (table @ ''_index__aggregate_type__aggregate_id'');
          table = quoteIdentifier table;
          q = [CHR 0x27];
          indexed = ''((metadata->>'' @ q @ ''_aggregate_type'' @ q @ ''), (metadata->>'' @ q
                    @ ''_aggregate_id'' @ q @ ''), ''
      in [Join [''CREATE TABLE '' @ table @ '' ('',
                ''    no BIGSERIAL,'',
                ''    event_id UUID NOT NULL,'',
                ''    event_name VARCHAR(100) NOT NULL,'',
                ''    payload JSON NOT NULL,'',
                ''    metadata JSONB NOT NULL,'',
                ''    created_at TIMESTAMP(6) NOT NULL,'',
                ''    PRIMARY KEY (no),'',
                ''    CONSTRAINT aggregate_version_not_null CHECK ((metadata->>'' @ q
                  @ ''_aggregate_version'' @ q @ '') IS NOT NULL),'',
                ''    CONSTRAINT aggregate_type_not_null CHECK ((metadata->>'' @ q
                  @ ''_aggregate_type'' @ q @ '') IS NOT NULL),'',
                ''    CONSTRAINT aggregate_id_not_null CHECK ((metadata->>'' @ q
                  @ ''_aggregate_id'' @ q @ '') IS NOT NULL),'',
                ''    UNIQUE (event_id)'',
                '');''] [CHR 0x0A],
          Join [''CREATE UNIQUE INDEX '' @ uniqueIndexName @ '' ON '' @ table,
                indexed @ ''(metadata->>'' @ q @ ''_aggregate_version'' @ q @ ''));''] [CHR 0x0A],
          Join [''CREATE INDEX '' @ indexName @ '' ON '' @ table,
                indexed @ ''no);''] [CHR 0x0A]])"

section \<open>The event store\<close>

text \<open>
  The database handle \<^verbatim>\<open>*sql.DB\<close>, by the calls the store makes on it and on the
  transaction it opens, over a database state \<open>'d\<close>. \<open>ExecContext\<close> and
  \<open>QueryContext\<close> are the methods of the handle itself; \<open>QueryRowScanBool\<close> is
  \<^verbatim>\<open>QueryRowContext(...).Scan(&exists)\<close>; \<open>BeginTx\<close> opens a transaction, \<open>Rollback\<close>
  and \<open>Commit\<close> are the methods of that transaction.
\<close>

record ('d, 'v, 't, 'rows) DB =
  ExecContext :: "string \<Rightarrow> ('v, 't) arg list \<Rightarrow> 'd \<Rightarrow> error option \<times> 'd"
  QueryContext :: "string \<Rightarrow> ('v, 't) arg list \<Rightarrow> 'd \<Rightarrow> (error + 'rows) \<times> 'd"
  QueryRowScanBool :: "string \<Rightarrow> ('v, 't) arg list \<Rightarrow> 'd \<Rightarrow> (error + bool) \<times> 'd"
  BeginTx :: "'d \<Rightarrow> error option \<times> 'd"
  Rollback :: "'d \<Rightarrow> error option \<times> 'd"
  Commit :: "'d \<Rightarrow> error option \<times> 'd"

text \<open>
  The interface \<^verbatim>\<open>PersistenceStrategy\<close>, by its four methods; \<open>'c\<close> is the state behind
  the strategy (its converter).
\<close>

record ('p, 'md, 't, 'v, 'c) PersistenceStrategy =
  createSchema :: "string \<Rightarrow> string list"
  columnNames :: "string list"
  prepareData :: "('p, 'md, 't) Message list \<Rightarrow> 'c \<Rightarrow> (error + ('v, 't) arg list) \<times> 'c"
  generateTableName :: "string \<Rightarrow> error + string"

text \<open>
  The struct \<^verbatim>\<open>EventStore\<close>. Its map \<^verbatim>\<open>preparedInsertPlaceholder\<close> is the one field that
  changes after construction and lives in the state below; the logger is left out, its
  calls change nothing the store returns.
\<close>

record ('p, 'md, 't, 'v, 'c, 'd, 'rows, 'stream) EventStore =
  persistenceStrategy :: "('p, 'md, 't, 'v, 'c) PersistenceStrategy"
  db :: "('d, 'v, 't, 'rows) DB"
  messageFactory :: "'rows \<Rightarrow> error + 'stream"
  columns :: string

record ('c, 'd) StoreState =
  strategyState :: 'c
  preparedInsertPlaceholder :: "nat \<rightharpoonup> string"
  dbState :: 'd

text \<open>
  \<^verbatim>\<open>NewEventStore\<close>; a \<^verbatim>\<open>nil\<close> argument is \<open>None\<close>. The placeholder map of the new store is
  empty.
\<close>

definition NewEventStore ::
  "('p, 'md, 't, 'v, 'c) PersistenceStrategy option \<Rightarrow> ('d, 'v, 't, 'rows) DB option \<Rightarrow>
   ('rows \<Rightarrow> error + 'stream) option \<Rightarrow>
   error + ('p, 'md, 't, 'v, 'c, 'd, 'rows, 'stream) EventStore"
where
  "NewEventStore strategy database factory =
     (case strategy of
        None \<Rightarrow> Inl ErrNoAggregateStreamStrategy
      | Some strategy \<Rightarrow>
          (case database of
             None \<Rightarrow> Inl ErrNoDBConnect
           | Some database \<Rightarrow>
               (case factory of
                  None \<Rightarrow> Inl ErrNoMessageFactory
                | Some factory \<Rightarrow>
                    Inr \<lparr>persistenceStrategy = strategy, db = database,
                         messageFactory = factory,
                         columns = Join (columnNames strategy) '', ''\<rparr>)))"

text \<open>\<^verbatim>\<open>EventStore.tableExists\<close>: an error of the query is logged and answered \<^verbatim>\<open>false\<close>.\<close>

definition tableExists ::
  "('p, 'md, 't, 'v, 'c, 'd, 'rows, 'stream) EventStore \<Rightarrow> string \<Rightarrow> 'd \<Rightarrow> bool \<times> 'd"
where
  "tableExists e table d =
     (case QueryRowScanBool (db e)
             (''SELECT EXISTS(SELECT 1 FROM information_schema.tables WHERE table_schema = ''
              @ [CHR 0x27] @ ''public'' @ [CHR 0x27] @ '' AND table_name = $1)'')
             [ArgString table] d of
        (Inl err, d') \<Rightarrow> (False, d')
      | (Inr exists, d') \<Rightarrow> (exists, d'))"

text \<open>
  The loop of \<^verbatim>\<open>EventStore.Create\<close> over the statements. Each statement is executed with
  \<^verbatim>\<open>e.db.ExecContext\<close>, the method of the handle, not of the transaction \<^verbatim>\<open>tx\<close>; on the
  first failure the transaction is rolled back.
\<close>

fun Create_loop ::
  "('p, 'md, 't, 'v, 'c, 'd, 'rows, 'stream) EventStore \<Rightarrow> string list \<Rightarrow> 'd \<Rightarrow> error option \<times> 'd"
where
  "Create_loop e [] d = (None, d)"
| "Create_loop e (q # queries) d =
     (case ExecContext (db e) q [] d of
        (None, d') \<Rightarrow> Create_loop e queries d'
      | (Some err, d') \<Rightarrow>
          (case Rollback (db e) d' of
             (Some errRollback, d'') \<Rightarrow>
               (Some (Errorf (''error one: '' @ Error errRollback @ [CHR 0x0A]
                              @ ''error two: '' @ Error err)), d'')
           | (None, d'') \<Rightarrow> (Some err, d'')))"

text \<open>\<^verbatim>\<open>EventStore.Create\<close>.\<close>

definition Create ::
  "('p, 'md, 't, 'v, 'c, 'd, 'rows, 'stream) EventStore \<Rightarrow> string \<Rightarrow> 'd \<Rightarrow> error option \<times> 'd"
where
  "Create e streamName d =
     (case tableName (generateTableName (persistenceStrategy e)) streamName of
        Inl err \<Rightarrow> (Some err, d)
      | Inr table \<Rightarrow>
          (case tableExists e table d of
             (True, d1) \<Rightarrow> (Some ErrTableAlreadyExists, d1)
           | (False, d1) \<Rightarrow>
               (let queries = createSchema (persistenceStrategy e) table
                in if length queries = 0 then (Some ErrNoCreateTableQueries, d1)
                   else
                     (case BeginTx (db e) d1 of
                        (Some err, d2) \<Rightarrow> (Some err, d2)
                      | (None, d2) \<Rightarrow>
                          (case Create_loop e queries d2 of
                             (Some err, d3) \<Rightarrow> (Some err, d3)
                           | (None, d3) \<Rightarrow> Commit (db e) d3)))))"

text \<open>\<^verbatim>\<open>EventStore.HasStream\<close>.\<close>

definition HasStream ::
  "('p, 'md, 't, 'v, 'c, 'd, 'rows, 'stream) EventStore \<Rightarrow> string \<Rightarrow> 'd \<Rightarrow> bool \<times> 'd"
where
  "HasStream e streamName d =
     (case tableName (generateTableName (persistenceStrategy e)) streamName of
        Inl err \<Rightarrow> (False, d)
      | Inr table \<Rightarrow> tableExists e table d)"


text \<open>
  A constraint of a metadata matcher, by its three getters. A matcher is the list of its
  constraints in the order \<^verbatim>\<open>Iterate\<close> visits them; the \<^verbatim>\<open>nil\<close> matcher is \<open>None\<close>.
\<close>

record 'v Constraint =
  Field :: string
  Operator :: string
  Value :: 'v

text \<open>
  The callback \<^verbatim>\<open>matchConditions\<close> hands to \<^verbatim>\<open>matcher.Iterate\<close>, run over the constraints:
  it counts in \<open>i\<close> and appends to the two slices. \<^verbatim>\<open>quoteString\<close> is a helper of the
  package that is not among the sources and is a parameter.
\<close>

fun matchConditions_iterate ::
  "(string \<Rightarrow> string) \<Rightarrow> 'v Constraint list \<Rightarrow> nat \<Rightarrow> string list \<Rightarrow> ('v, 't) arg list \<Rightarrow>
   string list \<times> ('v, 't) arg list"
where
  "matchConditions_iterate quoteString [] i conditions params = (conditions, params)"
| "matchConditions_iterate quoteString (c # cs) i conditions params =
     (let i = i + 1;
          condition = ''metadata ->> '' @ quoteString (Field c) @ '' '' @ Operator c
                      @ '' $'' @ Itoa i
      in matchConditions_iterate quoteString cs i
           (conditions @ [condition]) (params @ [ArgValue (Value c)]))"

definition matchConditions ::
  "(string \<Rightarrow> string) \<Rightarrow> 'v Constraint list option \<Rightarrow> string list \<times> ('v, 't) arg list"
where
  "matchConditions quoteString matcher =
     (case matcher of
        None \<Rightarrow> ([], [])
      | Some cs \<Rightarrow> matchConditions_iterate quoteString cs 0 [] [])"

text \<open>\<^verbatim>\<open>EventStore.Load\<close>; \<^verbatim>\<open>count\<close> is a pointer, \<open>None\<close> when \<^verbatim>\<open>nil\<close>.\<close>

definition Load ::
  "(string \<Rightarrow> string) \<Rightarrow> ('p, 'md, 't, 'v, 'c, 'd, 'rows, 'stream) EventStore \<Rightarrow> string \<Rightarrow>
   int64 \<Rightarrow> uint option \<Rightarrow> 'v Constraint list option \<Rightarrow> 'd \<Rightarrow> (error + 'stream) \<times> 'd"
where
  "Load quoteString e streamName fromNumber count matcher d =
     (case tableName (generateTableName (persistenceStrategy e)) streamName of
        Inl err \<Rightarrow> (Inl err, d)
      | Inr table \<Rightarrow>
          (case matchConditions quoteString matcher of
             (conditions, params) \<Rightarrow>
               (let params = params @ [ArgInt64 fromNumber];
                    conditions = conditions @ [''no >= $'' @ Itoa (length params)];
                    limit = (case count of
                               None \<Rightarrow> []
                             | Some n \<Rightarrow> ''LIMIT '' @ Itoa (unat n))
                in case QueryContext (db e)
                          (''SELECT * FROM '' @ table @ '' WHERE '' @ Join conditions '' AND ''
                           @ '' ORDER BY no '' @ limit)
                          params d of
                     (Inl err, d') \<Rightarrow> (Inl err, d')
                   | (Inr rows, d') \<Rightarrow> (messageFactory e rows, d'))))"

text \<open>
  The loop of \<^verbatim>\<open>prepareInsertValues\<close> that writes the placeholders into the buffer. Its
  body runs only while \<open>i < messageCount * lenCols\<close>, so \<open>lenCols\<close> is not zero where
  \<open>i mod lenCols\<close> is taken.
\<close>

function prepareInsertValues_loop :: "nat \<Rightarrow> nat \<Rightarrow> nat \<Rightarrow> string \<Rightarrow> string" where
  "prepareInsertValues_loop i placeholderCount lenCols placeholders =
     (if i < placeholderCount
      then
        (let placeholders =
               (if i mod lenCols = 0
                then (if i \<noteq> 0 then placeholders @ ''),'' else placeholders) @ ''(''
                else placeholders @ '','');
             placeholders = placeholders @ ''$'';
             placeholders = placeholders @ Itoa (i + 1)
         in prepareInsertValues_loop (i + 1) placeholderCount lenCols placeholders)
      else placeholders)"
  by pat_completeness auto
termination
  by (relation "measure (\<lambda>(i, placeholderCount, lenCols, placeholders). placeholderCount - i)") auto

declare prepareInsertValues_loop.simps [simp del]

text \<open>
  \<^verbatim>\<open>EventStore.prepareInsertValues\<close>, with the map \<^verbatim>\<open>preparedInsertPlaceholder\<close> passed
  through.
\<close>

definition prepareInsertValues ::
  "'m list \<Rightarrow> nat \<Rightarrow> (nat \<rightharpoonup> string) \<Rightarrow> string \<times> (nat \<rightharpoonup> string)"
where
  "prepareInsertValues streamEvents lenCols prepared =
     (let messageCount = length streamEvents
      in if messageCount = 0 then ([], prepared)
         else
           (case prepared messageCount of
              Some values \<Rightarrow> (values, prepared)
            | None \<Rightarrow>
                (let placeholderCount = messageCount * lenCols;
                     placeholders =
                       prepareInsertValues_loop 0 placeholderCount lenCols [] @ '')''
                 in (placeholders, prepared(messageCount \<mapsto> placeholders)))))"

text \<open>
  \<^verbatim>\<open>EventStore.AppendTo\<close>. There is no return between \<^verbatim>\<open>prepareInsertValues\<close> and
  \<^verbatim>\<open>ExecContext\<close>: the statement is executed for every list of events on which
  \<^verbatim>\<open>PrepareData\<close> succeeds.
\<close>

definition AppendTo ::
  "('p, 'md, 't, 'v, 'c, 'd, 'rows, 'stream) EventStore \<Rightarrow> string \<Rightarrow>
   ('p, 'md, 't) Message list \<Rightarrow> ('c, 'd) StoreState \<Rightarrow> error option \<times> ('c, 'd) StoreState"
where
  "AppendTo e streamName streamEvents st =
     (case tableName (generateTableName (persistenceStrategy e)) streamName of
        Inl err \<Rightarrow> (Some err, st)
      | Inr table \<Rightarrow>
          (case prepareData (persistenceStrategy e) streamEvents (strategyState st) of
             (Inl err, c') \<Rightarrow> (Some err, st\<lparr>strategyState := c'\<rparr>)
           | (Inr data, c') \<Rightarrow>
               (let cols = columnNames (persistenceStrategy e) in
                case prepareInsertValues streamEvents (length cols)
                       (preparedInsertPlaceholder st) of
                  (values, prepared') \<Rightarrow>
                    (case ExecContext (db e)
                            (''INSERT INTO '' @ table @ '' ('' @ columns e @ '') VALUES ''
                             @ values @ '';'')
                            data (dbState st) of
                       (err, d') \<Rightarrow>
                         (err, \<lparr>strategyState = c', preparedInsertPlaceholder = prepared',
                                dbState = d'\<rparr>)))))"

text \<open>
  \<^verbatim>\<open>NewPostgresStrategy\<close>: the single stream strategy as a \<open>PersistenceStrategy\<close>, from its
  converter (\<open>None\<close> when \<^verbatim>\<open>nil\<close>) and the parameters of its methods.
\<close>

definition NewPostgresStrategy ::
  "(string \<Rightarrow> string) \<Rightarrow> (string \<Rightarrow> string) \<Rightarrow> ('md \<Rightarrow> error + string) \<Rightarrow>
   ('p \<Rightarrow> 'c \<Rightarrow> (error + string \<times> string) \<times> 'c) option \<Rightarrow>
   error + ('p, 'md, 't, 'v, 'c) PersistenceStrategy"
where
  "NewPostgresStrategy unicodeLower quoteIdentifier marshal converter =
     (case converter of
        None \<Rightarrow> Inl ErrNoPayloadConverter
      | Some convertPayload \<Rightarrow>
          Inr \<lparr>createSchema = CreateSchema quoteIdentifier,
               columnNames = ColumnNames,
               prepareData = PrepareData convertPayload marshal,
               generateTableName = GenerateTableName unicodeLower\<rparr>)"


section \<open>The stream projector\<close>

definition MaxInt16 :: nat where
  "MaxInt16 = 32767"

text \<open>
  Modelled from the spec: the function \<^verbatim>\<open>resolveErrorAction\<close>, the constants
  \<^verbatim>\<open>errorRetry\<close>, \<^verbatim>\<open>errorIgnore\<close>, \<^verbatim>\<open>errorFail\<close>, \<^verbatim>\<open>errorFallthrough\<close> it returns and the
  type of the actions an error callback returns are declared in files of the package that
  are not among the sources. The spec gives the callback the actions Retry, Ignore, Fail
  and Fallthrough and says that an unrecognized action is treated as Fail;
  \<open>ProjectionUnrecognized\<close> stands for every other value of the action type.
\<close>

datatype ProjectionErrorAction =
    ProjectionRetry
  | ProjectionIgnoreError
  | ProjectionFail
  | ProjectionFallthrough
  | ProjectionUnrecognized int

datatype errorAction = errorRetry | errorIgnore | errorFail | errorFallthrough

definition resolveErrorAction ::
  "('n option \<Rightarrow> error \<Rightarrow> ProjectionErrorAction) \<Rightarrow> 'n option \<Rightarrow> error \<Rightarrow> errorAction"
where
  "resolveErrorAction projectionErrorHandler notification err =
     (case projectionErrorHandler notification err of
        ProjectionRetry \<Rightarrow> errorRetry
      | ProjectionIgnoreError \<Rightarrow> errorIgnore
      | ProjectionFail \<Rightarrow> errorFail
      | ProjectionFallthrough \<Rightarrow> errorFallthrough
      | ProjectionUnrecognized _ \<Rightarrow> errorFail)"

text \<open>
  The loop of \<^verbatim>\<open>StreamProjector.processNotification\<close> from the counter \<open>i\<close>. The executor's
  \<^verbatim>\<open>Execute\<close> (the fold) works on a state \<open>'s\<close>, the database and the projection; a
  \<^verbatim>\<open>nil\<close> notification is \<open>None\<close>. The switch of the source has a case for each of the
  four constants and no default. The error after the loop is built by \<^verbatim>\<open>errors.Errorf\<close>.
\<close>

function processNotification_loop ::
  "('n option \<Rightarrow> error \<Rightarrow> ProjectionErrorAction) \<Rightarrow> ('n option \<Rightarrow> 's \<Rightarrow> error option \<times> 's) \<Rightarrow>
   'n option \<Rightarrow> nat \<Rightarrow> 's \<Rightarrow> error option \<times> 's"
where
  "processNotification_loop projectionErrorHandler Execute notification i s =
     (if i < MaxInt16
      then
        (case Execute notification s of
           (None, s') \<Rightarrow> (None, s')
         | (Some err, s') \<Rightarrow>
             (case resolveErrorAction projectionErrorHandler notification err of
                errorRetry \<Rightarrow>
                  processNotification_loop projectionErrorHandler Execute notification (i + 1) s'
              | errorIgnore \<Rightarrow> (None, s')
              | errorFail \<Rightarrow> (Some err, s')
              | errorFallthrough \<Rightarrow> (Some err, s')))
      else
        (Some (Errorf (''seriously '' @ Itoa MaxInt16 @ '' retries is enough! maybe it''
                       @ [CHR 0x27]
                       @ ''s time to fix your projection or error handling code?'')),
         s))"
  by pat_completeness auto
termination
  by (relation "measure (\<lambda>(h, ex, n, i, s). MaxInt16 - i)") auto

declare processNotification_loop.simps [simp del]

definition processNotification ::
  "('n option \<Rightarrow> error \<Rightarrow> ProjectionErrorAction) \<Rightarrow> ('n option \<Rightarrow> 's \<Rightarrow> error option \<times> 's) \<Rightarrow>
   'n option \<Rightarrow> 's \<Rightarrow> error option \<times> 's"
where
  "processNotification projectionErrorHandler Execute notification s =
     processNotification_loop projectionErrorHandler Execute notification 0 s"

section \<open>Reading an event stream\<close>

text \<open>
  The interface \<^verbatim>\<open>EventStream\<close> over the state \<open>'s\<close> of the cursor: \<^verbatim>\<open>Next\<close> and
  \<^verbatim>\<open>Message\<close> may move it, \<^verbatim>\<open>Err\<close> reads it.
\<close>

record ('s, 'm) EventStream =
  Next :: "'s \<Rightarrow> bool \<times> 's"
  Err :: "'s \<Rightarrow> error option"
  Close :: "'s \<Rightarrow> error option \<times> 's"
  Message :: "'s \<Rightarrow> (error + 'm \<times> int64) \<times> 's"

text \<open>
  The loop of \<^verbatim>\<open>ReadEventStream\<close> with the two slices it appends to, and the check of
  \<^verbatim>\<open>Err\<close> after it. Nothing bounds the number of rounds: on a stream whose \<^verbatim>\<open>Next\<close>
  answers \<^verbatim>\<open>true\<close> for ever and whose messages decode, the function does not return,
  which is the value \<open>None\<close>.
\<close>

partial_function (option) ReadEventStream_loop ::
  "('s, 'm) EventStream \<Rightarrow> 'm list \<Rightarrow> int64 list \<Rightarrow> 's \<Rightarrow>
   ((error + 'm list \<times> int64 list) \<times> 's) option"
where
  "ReadEventStream_loop stream messages messageNumbers s =
     (case Next stream s of
        (ok, s1) \<Rightarrow>
          if ok
          then
            (case Message stream s1 of
               (Inl err, s2) \<Rightarrow> Some (Inl err, s2)
             | (Inr (msg, msgNumber), s2) \<Rightarrow>
                 ReadEventStream_loop stream (messages @ [msg]) (messageNumbers @ [msgNumber]) s2)
          else
            (case Err stream s1 of
               Some err \<Rightarrow> Some (Inl err, s1)
             | None \<Rightarrow> Some (Inr (messages, messageNumbers), s1)))"

definition ReadEventStream ::
  "('s, 'm) EventStream \<Rightarrow> 's \<Rightarrow> ((error + 'm list \<times> int64 list) \<times> 's) option"
where
  "ReadEventStream stream s = ReadEventStream_loop stream [] [] s"

section \<open>The example aggregate\<close>

type_synonym ID = string

text \<open>
  The payloads \<^verbatim>\<open>BankAccount.Apply\<close> tells apart by type; \<open>OtherPayload\<close> is a payload of
  any other type. Amounts and the balance are of type \<^verbatim>\<open>uint\<close>, 64 bits wide.
\<close>

datatype payload =
    AccountOpened ID
  | AccountCredited uint
  | AccountDebited uint
  | OtherPayload

text \<open>
  Modelled from the spec: the package \<^verbatim>\<open>aggregate\<close> (\<^verbatim>\<open>BaseRoot\<close>, \<^verbatim>\<open>Changed\<close>,
  \<^verbatim>\<open>RecordChange\<close>, \<^verbatim>\<open>GenerateID\<close>) is not among the sources. By the spec an aggregate root
  has a current version and a list of changes not yet committed, and
  \<^verbatim>\<open>RecordChange(root, payload)\<close> constructs a \<^verbatim>\<open>Changed\<close> envelope, assigns it the version
  \<open>currentVersion + 1\<close>, appends it and invokes \<^verbatim>\<open>apply\<close>. The identifier
  \<^verbatim>\<open>GenerateID\<close> returns is an argument of \<open>OpenBankAccount\<close>.
\<close>

record Changed =
  changeAggregateID :: ID
  changeVersion :: nat
  changePayload :: payload

record BaseRoot =
  version :: nat
  recordedEvents :: "Changed list"

text \<open>The struct \<^verbatim>\<open>BankAccount\<close>, which embeds \<^verbatim>\<open>aggregate.BaseRoot\<close>.\<close>

record BankAccount = BaseRoot +
  accountID :: ID
  balance :: uint

text \<open>\<^verbatim>\<open>BankAccount.AggregateID\<close> and \<^verbatim>\<open>BankAccount.Balance\<close>.\<close>

definition AggregateID :: "BankAccount \<Rightarrow> ID" where
  "AggregateID b = accountID b"

definition Balance :: "BankAccount \<Rightarrow> uint" where
  "Balance b = balance b"

text \<open>
  \<^verbatim>\<open>BankAccount.Apply\<close>: a type switch without default. The sum and the difference are
  those of \<^verbatim>\<open>uint\<close> and wrap around.
\<close>

definition Apply :: "BankAccount \<Rightarrow> Changed \<Rightarrow> BankAccount" where
  "Apply b change =
     (case changePayload change of
        AccountOpened AccountID \<Rightarrow> b\<lparr>accountID := AccountID\<rparr>
      | AccountCredited Amount \<Rightarrow> b\<lparr>balance := balance b + Amount\<rparr>
      | AccountDebited Amount \<Rightarrow> b\<lparr>balance := balance b - Amount\<rparr>
      | OtherPayload \<Rightarrow> b)"

text \<open>
  Modelled from the spec: \<^verbatim>\<open>aggregate.RecordChange\<close> on a bank account, as described above;
  the spec names no failure of it.
\<close>

definition RecordChange :: "BankAccount \<Rightarrow> payload \<Rightarrow> error option \<times> BankAccount" where
  "RecordChange root event =
     (let change = \<lparr>changeAggregateID = AggregateID root,
                     changeVersion = version root + 1,
                     changePayload = event\<rparr>;
          root = root\<lparr>version := version root + 1,
                      recordedEvents := recordedEvents root @ [change]\<rparr>
      in (None, Apply root change))"

text \<open>\<^verbatim>\<open>OpenBankAccount\<close>; \<open>generated\<close> is the result of \<^verbatim>\<open>aggregate.GenerateID()\<close>.\<close>

definition OpenBankAccount :: "ID \<Rightarrow> error option \<times> BankAccount" where
  "OpenBankAccount generated =
     (let account = \<lparr>version = 0, recordedEvents = [], accountID = generated, balance = 0\<rparr>
      in RecordChange account (AccountOpened generated))"

text \<open>\<^verbatim>\<open>BankAccount.Deposit\<close> and \<^verbatim>\<open>BankAccount.Withdraw\<close>.\<close>

definition Deposit :: "BankAccount \<Rightarrow> uint \<Rightarrow> error option \<times> BankAccount" where
  "Deposit b amount =
     (if amount = 0 then (None, b)
      else RecordChange b (AccountCredited amount))"

definition Withdraw :: "BankAccount \<Rightarrow> uint \<Rightarrow> error option \<times> BankAccount" where
  "Withdraw b amount =
     (if amount > balance b then (Some ErrInsufficientMoney, b)
      else RecordChange b (AccountDebited amount))"

section \<open>What a stream yields\<close>

text \<open>
  The successive calls of \<^verbatim>\<open>Next\<close> and \<^verbatim>\<open>Message\<close> on a stream, told apart from
  \<open>ReadEventStream\<close>: within \<open>n\<close> rounds, the items the calls yield in order, how the
  calls end, and the state they leave. The calls end when \<^verbatim>\<open>Next\<close> answers \<^verbatim>\<open>false\<close>,
  with the error \<^verbatim>\<open>Err\<close> then reports or none, or when a \<^verbatim>\<open>Message\<close> call fails.
  \<open>None\<close>: the calls have not ended after \<open>n\<close> rounds.
\<close>

datatype ending = Exhausted "error option" | MessageFailed error

fun yields ::
  "nat \<Rightarrow> ('s, 'm) EventStream \<Rightarrow> 's \<Rightarrow> (('m \<times> int64) list \<times> ending \<times> 's) option"
where
  "yields 0 stream s = None"
| "yields (Suc n) stream s =
     (case Next stream s of
        (False, s1) \<Rightarrow> Some ([], Exhausted (Err stream s1), s1)
      | (True, s1) \<Rightarrow>
          (case Message stream s1 of
             (Inl err, s2) \<Rightarrow> Some ([], MessageFailed err, s2)
           | (Inr item, s2) \<Rightarrow>
               (case yields n stream s2 of
                  None \<Rightarrow> None
                | Some (items, e, s') \<Rightarrow> Some (item # items, e, s'))))"

section \<open>A database, a strategy and a store for the examples\<close>

text \<open>
  A database in the way of \<^verbatim>\<open>database/sql\<close>: a statement given to the handle runs on a
  connection of its own and is durable at once, in \<open>durable\<close>; a transaction has its own
  list of statements, \<open>pending\<close>, made durable by \<open>Commit\<close> and dropped by
  \<open>Rollback\<close>. The function \<open>rejects\<close> says which statements fail and with what error,
  \<open>rollbackError\<close> whether a rollback fails. A query answers with its own text and
  arguments as the rows, and the existence query finds no table.
\<close>

record SimpleDB =
  durable :: "string list"
  pending :: "string list option"

definition simpleDB ::
  "(string \<Rightarrow> error option) \<Rightarrow> error option \<Rightarrow>
   (SimpleDB, string, nat, string \<times> (string, nat) arg list) DB"
where
  "simpleDB rejects rollbackError =
     \<lparr>ExecContext = (\<lambda>q args d.
          case rejects q of
            Some err \<Rightarrow> (Some err, d)
          | None \<Rightarrow> (None, d\<lparr>durable := durable d @ [q]\<rparr>)),
      QueryContext = (\<lambda>q args d. (Inr (q, args), d)),
      QueryRowScanBool = (\<lambda>q args d. (Inr False, d)),
      BeginTx = (\<lambda>d. (None, d\<lparr>pending := Some []\<rparr>)),
      Rollback = (\<lambda>d.
          case rollbackError of
            Some err \<Rightarrow> (Some err, d)
          | None \<Rightarrow> (None, d\<lparr>pending := None\<rparr>)),
      Commit = (\<lambda>d.
          (None, d\<lparr>durable := durable d @ (case pending d of None \<Rightarrow> [] | Some qs \<Rightarrow> qs),
                    pending := None\<rparr>))\<rparr>"

text \<open>A database rejects the statements that start with \<open>p\<close>, or those that end with it.\<close>

definition rejectPrefix :: "string \<Rightarrow> error \<Rightarrow> string \<Rightarrow> error option" where
  "rejectPrefix p err q = (if take (length p) q = p then Some err else None)"

definition rejectSuffix :: "string \<Rightarrow> error \<Rightarrow> string \<Rightarrow> error option" where
  "rejectSuffix p err q = (if drop (length q - length p) q = p then Some err else None)"

definition rejectNothing :: "string \<Rightarrow> error option" where
  "rejectNothing q = None"

text \<open>Quoting by one character on each side, for the two quoting helpers.\<close>

definition quoteWith :: "char \<Rightarrow> string \<Rightarrow> string" where
  "quoteWith q s = [q] @ s @ [q]"

text \<open>
  A converter and an encoder on texts: the empty payload cannot be converted, the empty
  metadata cannot be encoded.
\<close>

definition exampleConvert :: "string \<Rightarrow> error + string \<times> string" where
  "exampleConvert p =
     (if p = [] then Inl (ExternalError ''no payload'') else Inr (''account_credited'', p))"

definition exampleMarshal :: "string \<Rightarrow> error + string" where
  "exampleMarshal md =
     (if md = [] then Inl (ExternalError ''json: unsupported value'') else Inr md)"

definition exampleStrategy :: "(string, string, nat, string, string list) PersistenceStrategy" where
  "exampleStrategy =
     \<lparr>createSchema = CreateSchema (quoteWith (CHR 0x22)),
      columnNames = ColumnNames,
      prepareData = PrepareData (recording exampleConvert) exampleMarshal,
      generateTableName = GenerateTableName id\<rparr>"

definition exampleStore ::
  "(string \<Rightarrow> error option) \<Rightarrow> error option \<Rightarrow>
   (string, string, nat, string, string list, SimpleDB,
    string \<times> (string, nat) arg list, string \<times> (string, nat) arg list) EventStore"
where
  "exampleStore rejects rollbackError =
     \<lparr>persistenceStrategy = exampleStrategy,
      db = simpleDB rejects rollbackError,
      messageFactory = Inr,
      columns = ''event_id, event_name, payload, metadata, created_at''\<rparr>"

section \<open>An executor, callbacks and a stream for the examples\<close>

text \<open>
  An executor whose state counts the calls of \<open>Execute\<close>: the first \<open>failures\<close> calls
  fail, every later call succeeds.
\<close>

definition flakyExecute :: "nat \<Rightarrow> nat option \<Rightarrow> nat \<Rightarrow> error option \<times> nat" where
  "flakyExecute failures notification calls =
     (if calls < failures then (Some (ExternalError ''handler failed''), Suc calls)
      else (None, Suc calls))"

definition retryAlways :: "nat option \<Rightarrow> error \<Rightarrow> ProjectionErrorAction" where
  "retryAlways notification err = ProjectionRetry"

definition answerUnrecognized :: "nat option \<Rightarrow> error \<Rightarrow> ProjectionErrorAction" where
  "answerUnrecognized notification err = ProjectionUnrecognized 7"

text \<open>
  A cursor over a list of rows, each a message with its number or the error of decoding
  it: \<open>Next\<close> moves to the next row, \<open>Message\<close> gives the current one, and \<open>Err\<close> is
  the error \<open>failure\<close> the iteration ended with, if any.
\<close>

record 'm Cursor =
  remaining :: "(error + 'm \<times> int64) list"
  current :: "(error + 'm \<times> int64) option"
  failure :: "error option"

definition listStream :: "('m Cursor, 'm) EventStream" where
  "listStream =
     \<lparr>Next = (\<lambda>c.
          case remaining c of
            [] \<Rightarrow> (False, c\<lparr>current := None\<rparr>)
          | r # rs \<Rightarrow> (True, c\<lparr>remaining := rs, current := Some r\<rparr>)),
      Err = failure,
      Close = (\<lambda>c. (None, c\<lparr>remaining := [], current := None\<rparr>)),
      Message = (\<lambda>c.
          (case current c of
             None \<Rightarrow> Inl (ExternalError ''no current row'')
           | Some r \<Rightarrow> r,
           c))\<rparr>"


section \<open>Table names\<close>

lemma allowed_iff_class:
  "allowed c \<longleftrightarrow> c \<in> set ''abcdefghijklmnopqrstuvwxyz0123456789_''"
  by (cases c) (simp add: allowed_def)

lemma filter_dropWhile_not: "filter P (dropWhile (\<lambda>x. \<not> P x) cs) = filter P cs"
  by (induction cs) auto

lemma replaceNotAllowed_filter: "replaceNotAllowed s = filter allowed s"
  by (induction s rule: replaceNotAllowed.induct) (auto simp: filter_dropWhile_not)

lemma replaceLastUnderScores_dropWhile:
  "replaceLastUnderScores s = rev (dropWhile (\<lambda>c. c = CHR ''_'') (rev s))"
  by (induction s) (auto simp: dropWhile_append list_all_iff)

lemma GenerateTableName_nonempty:
  "s \<noteq> [] \<Longrightarrow>
   GenerateTableName U s =
     Inr (''events_'' @ rev (dropWhile (\<lambda>c. c = CHR ''_'') (rev (filter allowed (ToLower U s)))))"
  by (simp add: GenerateTableName_def replaceNotAllowed_filter replaceLastUnderScores_dropWhile)

text \<open>
  Claim C5. For every stream name, \<open>GenerateTableName\<close> lowercases it, removes
  every character outside \<^verbatim>\<open>[a-z0-9_]\<close>, removes the trailing underscores and puts
  \<^verbatim>\<open>events_\<close> in front; the empty stream name gives \<open>ErrEmptyStreamName\<close>. The
  lowering of a name of ASCII characters is the lowering of each character, and
  \<^verbatim>\<open>events-main/EU\<close> becomes \<^verbatim>\<open>events_eventsmaineu\<close>.
\<close>

theorem GenerateTableName_normalizes:
  "GenerateTableName U [] = Inl ErrEmptyStreamName \<and>
   (s \<noteq> [] \<longrightarrow>
      GenerateTableName U s =
        Inr (''events_'' @
             rev (dropWhile (\<lambda>c. c = CHR ''_'')
               (rev (filter (\<lambda>c. c \<in> set ''abcdefghijklmnopqrstuvwxyz0123456789_'')
                  (ToLower U s)))))) \<and>
   (list_all isASCII s \<longrightarrow> ToLower U s = map asciiLower s) \<and>
   GenerateTableName U ''events-main/EU'' = Inr ''events_eventsmaineu''"
proof -
  have empty: "GenerateTableName U [] = Inl ErrEmptyStreamName"
    by (simp add: GenerateTableName_def)
  have cls: "filter (\<lambda>c. c \<in> set ''abcdefghijklmnopqrstuvwxyz0123456789_'') xs = filter allowed xs"
    for xs
    using allowed_iff_class by presburger
  have lower: "list_all isASCII s \<longrightarrow> ToLower U s = map asciiLower s"
    by (auto simp: ToLower_def asciiLower_def list_ex_iff intro: map_idI[symmetric])
  have ex: "GenerateTableName U ''events-main/EU'' = Inr ''events_eventsmaineu''"
    by code_simp
  show ?thesis
    using empty lower ex GenerateTableName_nonempty[of s U] by (simp only: cls) simp
qed

theorem GenerateTableName_normalizes_witness:
  "''User-Stream!'' \<noteq> [] \<and> list_all isASCII ''User-Stream!'' \<and>
   GenerateTableName id ''User-Stream!'' = Inr ''events_userstream'' \<and>
   ToLower id ''User-Stream!'' = ''user-stream!''"
proof -
  have a: "list_all isASCII ''User-Stream!''"
    by code_simp
  have l: "map asciiLower ''User-Stream!'' = ''user-stream!''"
    by code_simp
  have r: "rev (dropWhile (\<lambda>c. c = CHR ''_'')
             (rev (filter (\<lambda>c. c \<in> set ''abcdefghijklmnopqrstuvwxyz0123456789_'')
                ''user-stream!''))) = ''userstream''"
    by simp
  show ?thesis
    using GenerateTableName_normalizes[of id "''User-Stream!''"] a l r by simp
qed

text \<open>
  Claim C10. For every stream name that is not empty, the \<open>GenerateTableName\<close> of the
  single stream strategy returns a name that starts with \<^verbatim>\<open>events_\<close>, so one that is not
  empty, also when the normalization strips every character of the stream name; with
  this strategy \<open>tableName\<close> returns that name, and for no stream name at all does it
  return \<open>ErrTableNameEmpty\<close>.
\<close>

theorem tableName_never_empty:
  assumes "NewPostgresStrategy U quoteIdentifier marshal (Some convertPayload) = Inr strategy"
  shows "tableName (generateTableName strategy) streamName \<noteq> Inl ErrTableNameEmpty \<and>
         (streamName \<noteq> [] \<longrightarrow>
            (\<exists>name. generateTableName strategy streamName = Inr (''events_'' @ name) \<and>
               tableName (generateTableName strategy) streamName = Inr (''events_'' @ name)) \<and>
            (filter allowed (ToLower U streamName) = [] \<longrightarrow>
               tableName (generateTableName strategy) streamName = Inr ''events_''))"
proof -
  have g: "generateTableName strategy = GenerateTableName U"
    using assms by (auto simp: NewPostgresStrategy_def)
  show ?thesis
  proof (cases "streamName = []")
    case True
    then show ?thesis
      unfolding g by (simp add: tableName_def GenerateTableName_def)
  next
    case False
    then show ?thesis
      unfolding g using GenerateTableName_nonempty[OF False, of U]
      by (simp add: tableName_def)
  qed
qed

theorem tableName_never_empty_witness:
  "''!!!'' \<noteq> [] \<and>
   NewPostgresStrategy id (quoteWith (CHR 0x22)) exampleMarshal
     (Some (recording exampleConvert)) = Inr exampleStrategy \<and>
   filter allowed (ToLower id ''!!!'') = [] \<and>
   tableName (generateTableName exampleStrategy) ''!!!'' = Inr ''events_''"
proof -
  have h1: "''!!!'' \<noteq> []"
    by simp
  have h2: "NewPostgresStrategy id (quoteWith (CHR 0x22)) exampleMarshal
              (Some (recording exampleConvert)) = Inr exampleStrategy"
    by (simp add: NewPostgresStrategy_def exampleStrategy_def)
  have h3: "filter allowed (ToLower id ''!!!'') = []"
    by code_simp
  show ?thesis
    using tableName_never_empty[OF h2, of "''!!!''"] h2 h3 by simp
qed

section \<open>Preparing the rows\<close>

lemma PrepareData_loop_rows:
  "map (\<lambda>x. convert (Payload x)) messages = map Inr tds \<Longrightarrow>
   map (\<lambda>x. marshal (Metadata x)) messages = map Inr metas \<Longrightarrow>
   PrepareData_loop (recording convert) marshal messages out calls =
     (Inr (out @ concat (map (\<lambda>(msg, (t, d), m).
              [ArgUUID (UUID msg), ArgString t, ArgBytes d, ArgBytes m, ArgTime (CreatedAt msg)])
            (zip messages (zip tds metas)))),
      calls @ map Payload messages)"
proof (induction messages arbitrary: out calls tds metas)
  case Nil
  then show ?case by simp
next
  case (Cons msg messages)
  from Cons.prems(1) obtain td tds' where tds: "tds = td # tds'"
    and c: "convert (Payload msg) = Inr td"
    and rest1: "map (\<lambda>x. convert (Payload x)) messages = map Inr tds'"
    by (cases tds) auto
  from Cons.prems(2) obtain m metas' where metas: "metas = m # metas'"
    and j: "marshal (Metadata msg) = Inr m"
    and rest2: "map (\<lambda>x. marshal (Metadata x)) messages = map Inr metas'"
    by (cases metas) auto
  obtain t d where td: "td = (t, d)"
    by (cases td)
  show ?case
    using Cons.IH[OF rest1 rest2] c j
    by (simp add: tds metas td recording_def)
qed

lemma PrepareData_loop_fails:
  "map (\<lambda>x. convert (Payload x)) pre = map Inr tds \<Longrightarrow>
   map (\<lambda>x. marshal (Metadata x)) pre = map Inr metas \<Longrightarrow>
   convert (Payload msg) = Inl err \<or>
     (\<exists>td. convert (Payload msg) = Inr td \<and> marshal (Metadata msg) = Inl err) \<Longrightarrow>
   PrepareData_loop (recording convert) marshal (pre @ msg # post) out calls =
     (Inl err, calls @ map Payload pre @ [Payload msg])"
proof (induction pre arbitrary: out calls tds metas)
  case Nil
  then show ?case by (auto simp: recording_def)
next
  case (Cons p pre)
  from Cons.prems(1) obtain td tds' where tds: "tds = td # tds'"
    and c: "convert (Payload p) = Inr td"
    and rest1: "map (\<lambda>x. convert (Payload x)) pre = map Inr tds'"
    by (cases tds) auto
  from Cons.prems(2) obtain m metas' where metas: "metas = m # metas'"
    and j: "marshal (Metadata p) = Inr m"
    and rest2: "map (\<lambda>x. marshal (Metadata x)) pre = map Inr metas'"
    by (cases metas) auto
  obtain t d where td: "td = (t, d)"
    by (cases td)
  show ?case
    using Cons.IH[OF rest1 rest2 Cons.prems(3)] c j
    by (simp add: td recording_def)
qed

lemma length_concat_rows:
  "length tds = length messages \<Longrightarrow> length metas = length messages \<Longrightarrow>
   length (concat (map (\<lambda>(msg, (t, d), m).
              [ArgUUID (UUID msg), ArgString t, ArgBytes d, ArgBytes m, ArgTime (CreatedAt msg)])
            (zip messages (zip tds metas)))) = length messages * 5"
proof (induction messages arbitrary: tds metas)
  case Nil
  then show ?case by simp
next
  case (Cons a messages)
  then show ?case by (cases tds; cases metas) auto
qed


text \<open>
  Claim C7. For every list of messages whose payloads the converter converts and whose
  metadata are encoded, \<open>PrepareData\<close> returns the rows of the messages one after the
  other, each row being the message's UUID, the converted payload's type name and data,
  the encoded metadata and the creation time, which is the order of \<open>ColumnNames\<close>
  (\<^verbatim>\<open>event_id\<close>, \<^verbatim>\<open>event_name\<close>, \<^verbatim>\<open>payload\<close>, \<^verbatim>\<open>metadata\<close>, \<^verbatim>\<open>created_at\<close>);
  the vector has as many entries as messages times columns, and the converter has been
  called once on each message's payload, in order. If the conversion or the encoding
  fails for a message, after succeeding for all messages before it, \<open>PrepareData\<close>
  returns that error and no vector, the converter having been called on the messages up
  to that one.
\<close>

theorem PrepareData_flat_vector:
  "(map (\<lambda>x. convert (Payload x)) messages = map Inr tds \<and>
    map (\<lambda>x. marshal (Metadata x)) messages = map Inr metas \<longrightarrow>
      PrepareData (recording convert) marshal messages calls =
        (Inr (concat (map (\<lambda>(msg, (t, d), m).
                 [ArgUUID (UUID msg), ArgString t, ArgBytes d, ArgBytes m,
                  ArgTime (CreatedAt msg) :: ('v, 't) arg])
               (zip messages (zip tds metas)))),
         calls @ map Payload messages) \<and>
      length (concat (map (\<lambda>(msg, (t, d), m).
                 [ArgUUID (UUID msg), ArgString t, ArgBytes d, ArgBytes m,
                  ArgTime (CreatedAt msg) :: ('v, 't) arg])
               (zip messages (zip tds metas)))) = length messages * length ColumnNames) \<and>
   ColumnNames = [''event_id'', ''event_name'', ''payload'', ''metadata'', ''created_at''] \<and>
   (map (\<lambda>x. convert (Payload x)) pre = map Inr tds' \<and>
    map (\<lambda>x. marshal (Metadata x)) pre = map Inr metas' \<and>
    (convert (Payload msg) = Inl err \<or>
     (\<exists>td. convert (Payload msg) = Inr td \<and> marshal (Metadata msg) = Inl err)) \<longrightarrow>
      PrepareData (recording convert) marshal (pre @ msg # post) calls =
        (Inl err :: error + ('v, 't) arg list, calls @ map Payload pre @ [Payload msg]))"
proof (intro conjI impI)
  assume h: "map (\<lambda>x. convert (Payload x)) messages = map Inr tds \<and>
             map (\<lambda>x. marshal (Metadata x)) messages = map Inr metas"
  then show "PrepareData (recording convert) marshal messages calls =
        (Inr (concat (map (\<lambda>(msg, (t, d), m).
                 [ArgUUID (UUID msg), ArgString t, ArgBytes d, ArgBytes m,
                  ArgTime (CreatedAt msg) :: ('v, 't) arg])
               (zip messages (zip tds metas)))),
         calls @ map Payload messages)"
    using PrepareData_loop_rows[of convert messages tds marshal metas "[]" calls]
    by (simp add: PrepareData_def)
  from h have "length tds = length messages" "length metas = length messages"
    by (metis length_map)+
  then have "length (concat (map (\<lambda>(msg, (t, d), m).
                 [ArgUUID (UUID msg), ArgString t, ArgBytes d, ArgBytes m,
                  ArgTime (CreatedAt msg) :: ('v, 't) arg])
               (zip messages (zip tds metas)))) = length messages * 5"
    by (rule length_concat_rows)
  then show "length (concat (map (\<lambda>(msg, (t, d), m).
                 [ArgUUID (UUID msg), ArgString t, ArgBytes d, ArgBytes m,
                  ArgTime (CreatedAt msg) :: ('v, 't) arg])
               (zip messages (zip tds metas)))) = length messages * length ColumnNames"
    by (simp add: ColumnNames_def)
next
  show "ColumnNames = [''event_id'', ''event_name'', ''payload'', ''metadata'', ''created_at'']"
    by (simp add: ColumnNames_def)
next
  assume "map (\<lambda>x. convert (Payload x)) pre = map Inr tds' \<and>
    map (\<lambda>x. marshal (Metadata x)) pre = map Inr metas' \<and>
    (convert (Payload msg) = Inl err \<or>
     (\<exists>td. convert (Payload msg) = Inr td \<and> marshal (Metadata msg) = Inl err))"
  then show "PrepareData (recording convert) marshal (pre @ msg # post) calls =
        (Inl err :: error + ('v, 't) arg list, calls @ map Payload pre @ [Payload msg])"
    using PrepareData_loop_fails[of convert pre tds' marshal metas' msg err post "[]" calls]
    by (simp add: PrepareData_def)
qed

theorem PrepareData_flat_vector_witness:
  "map (\<lambda>x. exampleConvert (Payload x))
     [\<lparr>UUID = 1, Payload = ''100'', Metadata = ''v2'', CreatedAt = 7\<rparr>,
      \<lparr>UUID = 2, Payload = ''10'', Metadata = ''v3'', CreatedAt = 8\<rparr>]
     = map Inr [(''account_credited'', ''100''), (''account_credited'', ''10'')] \<and>
   map (\<lambda>x. exampleMarshal (Metadata x))
     [\<lparr>UUID = 1, Payload = ''100'', Metadata = ''v2'', CreatedAt = 7\<rparr>,
      \<lparr>UUID = 2, Payload = ''10'', Metadata = ''v3'', CreatedAt = 8\<rparr>]
     = map Inr [''v2'', ''v3''] \<and>
   PrepareData (recording exampleConvert) exampleMarshal
     [\<lparr>UUID = 1, Payload = ''100'', Metadata = ''v2'', CreatedAt = 7\<rparr>,
      \<lparr>UUID = 2, Payload = ''10'', Metadata = ''v3'', CreatedAt = 8\<rparr>] []
     = (Inr [ArgUUID 1, ArgString ''account_credited'', ArgBytes ''100'', ArgBytes ''v2'',
             ArgTime (7::nat),
             ArgUUID 2, ArgString ''account_credited'', ArgBytes ''10'', ArgBytes ''v3'',
             ArgTime 8 :: (string, nat) arg],
        [''100'', ''10'']) \<and>
   exampleMarshal (Metadata \<lparr>UUID = 3, Payload = ''20'', Metadata = [], CreatedAt = 9::nat\<rparr>)
     = Inl (ExternalError ''json: unsupported value'') \<and>
   PrepareData (recording exampleConvert) exampleMarshal
     ([\<lparr>UUID = 1, Payload = ''100'', Metadata = ''v2'', CreatedAt = 7\<rparr>]
      @ \<lparr>UUID = 3, Payload = ''20'', Metadata = [], CreatedAt = 9\<rparr>
      # [\<lparr>UUID = 2, Payload = ''10'', Metadata = ''v3'', CreatedAt = 8\<rparr>]) []
     = (Inl (ExternalError ''json: unsupported value'') :: error + (string, nat) arg list,
        [''100'', ''20''])"
proof -
  let ?m1 = "\<lparr>UUID = 1, Payload = ''100'', Metadata = ''v2'', CreatedAt = 7::nat\<rparr>"
  let ?m2 = "\<lparr>UUID = 2, Payload = ''10'', Metadata = ''v3'', CreatedAt = 8::nat\<rparr>"
  let ?m3 = "\<lparr>UUID = 3, Payload = ''20'', Metadata = [], CreatedAt = 9::nat\<rparr>"
  have c: "map (\<lambda>x. exampleConvert (Payload x)) [?m1, ?m2]
             = map Inr [(''account_credited'', ''100''), (''account_credited'', ''10'')]"
    by (simp add: exampleConvert_def)
  have j: "map (\<lambda>x. exampleMarshal (Metadata x)) [?m1, ?m2] = map Inr [''v2'', ''v3'']"
    by (simp add: exampleMarshal_def)
  have c1: "map (\<lambda>x. exampleConvert (Payload x)) [?m1] = map Inr [(''account_credited'', ''100'')]"
    by (simp add: exampleConvert_def)
  have j1: "map (\<lambda>x. exampleMarshal (Metadata x)) [?m1] = map Inr [''v2'']"
    by (simp add: exampleMarshal_def)
  have f: "exampleConvert (Payload ?m3) = Inr (''account_credited'', ''20'')"
          "exampleMarshal (Metadata ?m3) = Inl (ExternalError ''json: unsupported value'')"
    by (simp_all add: exampleConvert_def exampleMarshal_def)
  show ?thesis
    using PrepareData_flat_vector[where 'v = string, of exampleConvert "[?m1, ?m2]"
        "[(''account_credited'', ''100''), (''account_credited'', ''10'')]"
        exampleMarshal "[''v2'', ''v3'']" "[]" "[?m1]" "[(''account_credited'', ''100'')]"
        "[''v2'']" ?m3 "ExternalError ''json: unsupported value''" "[?m2]"]
      c j c1 j1 f
    by simp
qed

section \<open>Loading a stream\<close>

lemma matchConditions_iterate_eq:
  "matchConditions_iterate quoteString cs i conditions params =
     (conditions @
        map2 (\<lambda>n c. ''metadata ->> '' @ quoteString (Field c) @ '' '' @ Operator c @ '' $'' @ Itoa n)
          [Suc i ..< Suc (i + length cs)] cs,
      params @ map (\<lambda>c. ArgValue (Value c)) cs)"
proof (induction cs arbitrary: i conditions params)
  case Nil
  then show ?case by simp
next
  case (Cons c cs)
  have "[Suc i ..< Suc (i + length (c # cs))] = Suc i # [Suc (Suc i) ..< Suc (Suc i + length cs)]"
    by (simp add: upt_conv_Cons del: upt_Suc)
  then show ?case
    using Cons.IH[of "Suc i"] by (simp add: Let_def del: upt_Suc)
qed

text \<open>
  Claim C4. For a stream whose table name resolves, \<open>Load\<close> hands \<open>QueryContext\<close>
  one query and its arguments: with the \<open>k\<close> constraints of the matcher in the order of
  iteration (none for the \<^verbatim>\<open>nil\<close> matcher), the conditions are one fragment
  \<^verbatim>\<open>metadata ->> <quoted field> <operator> $n\<close> per constraint, \<open>n\<close> from 1 to \<open>k\<close>,
  and then \<^verbatim>\<open>no >= $\<close>\<open>k + 1\<close>, joined by \<^verbatim>\<open>AND\<close>; the arguments are the \<open>k\<close>
  values of the constraints and then \<open>fromNumber\<close>; the query is ordered by \<^verbatim>\<open>no\<close>
  and ends with \<^verbatim>\<open>LIMIT\<close> and the count exactly when a count is given. The result of
  the query goes to the message factory, its error is returned as it is.
\<close>

theorem Load_query:
  assumes "tableName (generateTableName (persistenceStrategy e)) streamName = Inr table"
  shows "Load quoteString e streamName fromNumber count matcher d =
     (let cs = (case matcher of None \<Rightarrow> [] | Some cs \<Rightarrow> cs);
          k = length cs;
          fragments =
            map2 (\<lambda>n c. ''metadata ->> '' @ quoteString (Field c) @ '' '' @ Operator c
                          @ '' $'' @ Itoa n)
              [1 ..< Suc k] cs;
          query = ''SELECT * FROM '' @ table @ '' WHERE ''
                  @ Join (fragments @ [''no >= $'' @ Itoa (k + 1)]) '' AND ''
                  @ '' ORDER BY no ''
                  @ (case count of None \<Rightarrow> [] | Some n \<Rightarrow> ''LIMIT '' @ Itoa (unat n));
          params = map (\<lambda>c. ArgValue (Value c)) cs @ [ArgInt64 fromNumber]
      in case QueryContext (db e) query params d of
           (Inl err, d') \<Rightarrow> (Inl err, d')
         | (Inr rows, d') \<Rightarrow> (messageFactory e rows, d'))"
proof (cases matcher)
  case None
  then show ?thesis
    using assms by (simp add: Load_def matchConditions_def)
next
  case (Some cs)
  then show ?thesis
    using assms
    by (simp add: Load_def matchConditions_def matchConditions_iterate_eq Let_def del: upt_Suc)
qed


theorem Load_query_witness:
  "tableName (generateTableName (persistenceStrategy (exampleStore rejectNothing None))) ''orders''
     = Inr ''events_orders'' \<and>
   Load (quoteWith (CHR 0x27)) (exampleStore rejectNothing None) ''orders'' 1 (Some 10)
     (Some [\<lparr>Field = ''region'', Operator = ''='', Value = ''EU''\<rparr>])
     \<lparr>durable = [], pending = None\<rparr>
     = (Inr (''SELECT * FROM events_orders WHERE metadata ->> '' @ [CHR 0x27] @ ''region''
             @ [CHR 0x27] @ '' = $1 AND no >= $2 ORDER BY no LIMIT 10'',
             [ArgValue ''EU'', ArgInt64 1]),
        \<lparr>durable = [], pending = None\<rparr>) \<and>
   Load (quoteWith (CHR 0x27)) (exampleStore rejectNothing None) ''orders'' 6 None None
     \<lparr>durable = [], pending = None\<rparr>
     = (Inr (''SELECT * FROM events_orders WHERE no >= $1 ORDER BY no '', [ArgInt64 6]),
        \<lparr>durable = [], pending = None\<rparr>)"
proof -
  have h: "tableName (generateTableName (persistenceStrategy (exampleStore rejectNothing None)))
             ''orders'' = Inr ''events_orders''"
    by code_simp
  have n: "Itoa (Suc 0) = ''1''" "Itoa (Suc (Suc 0)) = ''2''" "Itoa 10 = ''10''"
    by (simp_all add: Itoa.simps digits_def)
  show ?thesis
    using h
      Load_query[OF h, of "quoteWith (CHR 0x27)" 1 "Some 10"
        "Some [\<lparr>Field = ''region'', Operator = ''='', Value = ''EU''\<rparr>]"
        "\<lparr>durable = [], pending = None\<rparr>"]
      Load_query[OF h, of "quoteWith (CHR 0x27)" 6 None None "\<lparr>durable = [], pending = None\<rparr>"]
    by (simp add: n Let_def exampleStore_def simpleDB_def quoteWith_def)
qed

section \<open>Retrying the fold\<close>

lemma Itoa_MaxInt16: "Itoa MaxInt16 = ''32767''"
  by (simp add: Itoa.simps MaxInt16_def digits_def)

lemma funpow_step_shift:
  "Execute n s = (r, s') \<Longrightarrow>
   ((\<lambda>s. snd (Execute n s)) ^^ Suc k) s = ((\<lambda>s. snd (Execute n s)) ^^ k) s'"
  by (simp add: funpow_Suc_right del: funpow.simps)

lemma processNotification_loop_retry:
  "i < MaxInt16 \<Longrightarrow> Execute n s = (Some err, s') \<Longrightarrow> h n err = ProjectionRetry \<Longrightarrow>
   processNotification_loop h Execute n i s = processNotification_loop h Execute n (i + 1) s'"
  by (subst processNotification_loop.simps) (simp add: resolveErrorAction_def)

lemma processNotification_loop_exhausted:
  assumes retry: "\<And>n e. h n e = ProjectionRetry"
  shows "d = MaxInt16 - i \<Longrightarrow> i \<le> MaxInt16 \<Longrightarrow>
    (\<forall>k < d. fst (Execute n (((\<lambda>s. snd (Execute n s)) ^^ k) s)) \<noteq> None) \<Longrightarrow>
    processNotification_loop h Execute n i s =
      (Some (Errorf (''seriously 32767 retries is enough! maybe it'' @ [CHR 0x27]
                     @ ''s time to fix your projection or error handling code?'')),
       ((\<lambda>s. snd (Execute n s)) ^^ d) s)"
proof (induction d arbitrary: i s)
  case 0
  then have "\<not> i < MaxInt16" by simp
  then show ?case
    by (subst processNotification_loop.simps) (simp add: Itoa_MaxInt16)
next
  case (Suc d)
  then have lt: "i < MaxInt16" by simp
  have "fst (Execute n (((\<lambda>s. snd (Execute n s)) ^^ 0) s)) \<noteq> None"
    using Suc.prems(3) by blast
  then obtain err s' where ex: "Execute n s = (Some err, s')"
    by (cases "Execute n s") auto
  note shift = funpow_step_shift[of Execute n s "Some err" s', OF ex]
  have rest: "\<forall>k < d. fst (Execute n (((\<lambda>s. snd (Execute n s)) ^^ k) s')) \<noteq> None"
  proof (intro allI impI)
    fix k assume "k < d"
    then have "Suc k < Suc d" by simp
    then have "fst (Execute n (((\<lambda>s. snd (Execute n s)) ^^ Suc k) s)) \<noteq> None"
      using Suc.prems(3) by blast
    then show "fst (Execute n (((\<lambda>s. snd (Execute n s)) ^^ k) s')) \<noteq> None"
      unfolding shift .
  qed
  have d: "d = MaxInt16 - (i + 1)" and le: "i + 1 \<le> MaxInt16"
    using Suc.prems(1) lt by simp_all
  have IH: "processNotification_loop h Execute n (i + 1) s' =
      (Some (Errorf (''seriously 32767 retries is enough! maybe it'' @ [CHR 0x27]
                     @ ''s time to fix your projection or error handling code?'')),
       ((\<lambda>s. snd (Execute n s)) ^^ d) s')"
    by (rule Suc.IH[OF d le rest])
  show ?case
    unfolding processNotification_loop_retry[of i Execute n s err s' h, OF lt ex retry] IH shift ..
qed

lemma processNotification_loop_succeeds:
  assumes retry: "\<And>n e. h n e = ProjectionRetry"
  shows "i + k < MaxInt16 \<Longrightarrow>
    (\<forall>j < k. fst (Execute n (((\<lambda>s. snd (Execute n s)) ^^ j) s)) \<noteq> None) \<Longrightarrow>
    fst (Execute n (((\<lambda>s. snd (Execute n s)) ^^ k) s)) = None \<Longrightarrow>
    processNotification_loop h Execute n i s = (None, ((\<lambda>s. snd (Execute n s)) ^^ Suc k) s)"
proof (induction k arbitrary: i s)
  case 0
  then obtain s' where "Execute n s = (None, s')"
    by (cases "Execute n s") auto
  then show ?case
    using 0 by (subst processNotification_loop.simps) simp
next
  case (Suc k)
  then have lt: "i < MaxInt16" by simp
  have "fst (Execute n (((\<lambda>s. snd (Execute n s)) ^^ 0) s)) \<noteq> None"
    using Suc.prems(2) by blast
  then obtain err s' where ex: "Execute n s = (Some err, s')"
    by (cases "Execute n s") auto
  note shift = funpow_step_shift[of Execute n s "Some err" s', OF ex]
  have rest: "\<forall>j < k. fst (Execute n (((\<lambda>s. snd (Execute n s)) ^^ j) s')) \<noteq> None"
  proof (intro allI impI)
    fix j assume "j < k"
    then have "Suc j < Suc k" by simp
    then have "fst (Execute n (((\<lambda>s. snd (Execute n s)) ^^ Suc j) s)) \<noteq> None"
      using Suc.prems(2) by blast
    then show "fst (Execute n (((\<lambda>s. snd (Execute n s)) ^^ j) s')) \<noteq> None"
      unfolding shift .
  qed
  have last: "fst (Execute n (((\<lambda>s. snd (Execute n s)) ^^ k) s')) = None"
    using Suc.prems(3) unfolding shift .
  have b: "i + 1 + k < MaxInt16"
    using Suc.prems(1) by simp
  have IH: "processNotification_loop h Execute n (i + 1) s' =
          (None, ((\<lambda>s. snd (Execute n s)) ^^ Suc k) s')"
    by (rule Suc.IH[OF b rest last])
  show ?case
    unfolding processNotification_loop_retry[of i Execute n s err s' h, OF lt ex retry] IH
      funpow_step_shift[of Execute n s "Some err" s' "Suc k", OF ex] ..
qed

lemma flakyExecute_funpow:
  "((\<lambda>s. snd (flakyExecute m n s)) ^^ k) s = s + k"
  by (induction k) (simp_all add: flakyExecute_def)

text \<open>
  Claim C1, as amended. With an error callback that always answers Retry,
  \<open>processNotification\<close> calls \<open>Execute\<close> again with the same notification, on the
  state the call before left, as long as the calls fail, up to \<open>MaxInt16\<close> calls in
  all, which is \<open>2 ^ 15 - 1\<close>: when the first \<open>MaxInt16\<close> calls all fail it returns the
  error of \<^verbatim>\<open>errors.Errorf\<close> after exactly that many calls, and when a call before
  succeeds it returns success right after that call.
\<close>

theorem processNotification_retry_ceiling:
  assumes "\<forall>n e. projectionErrorHandler n e = ProjectionRetry"
  shows "MaxInt16 = 2 ^ 15 - 1 \<and>
    ((\<forall>k < MaxInt16.
        fst (Execute notification (((\<lambda>s. snd (Execute notification s)) ^^ k) s)) \<noteq> None) \<longrightarrow>
      processNotification projectionErrorHandler Execute notification s =
        (Some (Errorf (''seriously 32767 retries is enough! maybe it'' @ [CHR 0x27]
                       @ ''s time to fix your projection or error handling code?'')),
         ((\<lambda>s. snd (Execute notification s)) ^^ MaxInt16) s)) \<and>
    (k < MaxInt16 \<and>
     (\<forall>j < k. fst (Execute notification (((\<lambda>s. snd (Execute notification s)) ^^ j) s)) \<noteq> None) \<and>
     fst (Execute notification (((\<lambda>s. snd (Execute notification s)) ^^ k) s)) = None \<longrightarrow>
      processNotification projectionErrorHandler Execute notification s =
        (None, ((\<lambda>s. snd (Execute notification s)) ^^ Suc k) s))"
proof (intro conjI impI)
  show "MaxInt16 = 2 ^ 15 - 1"
    by (simp add: MaxInt16_def)
next
  assume "\<forall>k < MaxInt16.
        fst (Execute notification (((\<lambda>s. snd (Execute notification s)) ^^ k) s)) \<noteq> None"
  then show "processNotification projectionErrorHandler Execute notification s =
        (Some (Errorf (''seriously 32767 retries is enough! maybe it'' @ [CHR 0x27]
                       @ ''s time to fix your projection or error handling code?'')),
         ((\<lambda>s. snd (Execute notification s)) ^^ MaxInt16) s)"
    unfolding processNotification_def
    using assms by (intro processNotification_loop_exhausted) simp_all
next
  assume "k < MaxInt16 \<and>
     (\<forall>j < k. fst (Execute notification (((\<lambda>s. snd (Execute notification s)) ^^ j) s)) \<noteq> None) \<and>
     fst (Execute notification (((\<lambda>s. snd (Execute notification s)) ^^ k) s)) = None"
  then show "processNotification projectionErrorHandler Execute notification s =
        (None, ((\<lambda>s. snd (Execute notification s)) ^^ Suc k) s)"
    unfolding processNotification_def
    using assms by (intro processNotification_loop_succeeds) simp_all
qed

theorem processNotification_retry_ceiling_witness:
  "(\<forall>n e. retryAlways n e = ProjectionRetry) \<and>
   processNotification retryAlways (flakyExecute 2) (Some 8) 0 = (None, 3) \<and>
   processNotification retryAlways (flakyExecute 40000) (Some 8) 0 =
     (Some (Errorf (''seriously 32767 retries is enough! maybe it'' @ [CHR 0x27]
                    @ ''s time to fix your projection or error handling code?'')), 32767)"
proof -
  have r: "\<forall>n e. retryAlways n e = ProjectionRetry"
    by (simp add: retryAlways_def)
  have two: "(2::nat) < MaxInt16 \<and>
     (\<forall>j < 2. fst (flakyExecute 2 (Some 8) (((\<lambda>s. snd (flakyExecute 2 (Some 8) s)) ^^ j) 0)) \<noteq> None) \<and>
     fst (flakyExecute 2 (Some 8) (((\<lambda>s. snd (flakyExecute 2 (Some 8) s)) ^^ 2) 0)) = None"
    unfolding flakyExecute_funpow by (simp add: flakyExecute_def MaxInt16_def)
  have all: "\<forall>k < MaxInt16.
     fst (flakyExecute 40000 (Some 8) (((\<lambda>s. snd (flakyExecute 40000 (Some 8) s)) ^^ k) 0)) \<noteq> None"
    unfolding flakyExecute_funpow by (simp add: flakyExecute_def MaxInt16_def)
  have "processNotification retryAlways (flakyExecute 2) (Some 8) 0 =
          (None, ((\<lambda>s. snd (flakyExecute 2 (Some 8) s)) ^^ Suc 2) 0)"
    by (rule processNotification_retry_ceiling[OF r, of "flakyExecute 2" "Some 8" 0 2,
          THEN conjunct2, THEN conjunct2, THEN mp, OF two])
  then have succeeds: "processNotification retryAlways (flakyExecute 2) (Some 8) 0 = (None, 3)"
    unfolding flakyExecute_funpow by simp
  have "processNotification retryAlways (flakyExecute 40000) (Some 8) 0 =
     (Some (Errorf (''seriously 32767 retries is enough! maybe it'' @ [CHR 0x27]
                    @ ''s time to fix your projection or error handling code?'')),
      ((\<lambda>s. snd (flakyExecute 40000 (Some 8) s)) ^^ MaxInt16) 0)"
    by (rule processNotification_retry_ceiling[OF r, of "flakyExecute 40000" "Some 8" 0 0,
          THEN conjunct2, THEN conjunct1, THEN mp, OF all])
  then have exhausted: "processNotification retryAlways (flakyExecute 40000) (Some 8) 0 =
     (Some (Errorf (''seriously 32767 retries is enough! maybe it'' @ [CHR 0x27]
                    @ ''s time to fix your projection or error handling code?'')), 32767)"
    unfolding flakyExecute_funpow by (simp add: MaxInt16_def)
  show ?thesis
    using r succeeds exhausted by (intro conjI)
qed

text \<open>
  Against claim C1 as it is stated: the executor below fails on its first \<open>2 ^ 15 - 1\<close>
  calls and would succeed on call \<open>2 ^ 15\<close>. With the callback that always answers
  Retry, \<open>processNotification\<close> stops after \<open>32767\<close> calls, fewer than \<open>2 ^ 15\<close>, and
  returns the error, not the success of the next attempt.
\<close>

theorem processNotification_ceiling_counterexample:
  "processNotification retryAlways (flakyExecute 32767) None 0 =
     (Some (Errorf (''seriously 32767 retries is enough! maybe it'' @ [CHR 0x27]
                    @ ''s time to fix your projection or error handling code?'')), 32767) \<and>
   flakyExecute 32767 None 32767 = (None, 32768) \<and>
   (32767 :: nat) < 2 ^ 15"
proof -
  have r: "\<And>n e. retryAlways n e = ProjectionRetry"
    by (simp add: retryAlways_def)
  have all: "\<forall>k < MaxInt16.
     fst (flakyExecute 32767 None (((\<lambda>s. snd (flakyExecute 32767 None s)) ^^ k) 0)) \<noteq> None"
    unfolding flakyExecute_funpow by (simp add: flakyExecute_def MaxInt16_def)
  have "processNotification_loop retryAlways (flakyExecute 32767) None 0 0 =
      (Some (Errorf (''seriously 32767 retries is enough! maybe it'' @ [CHR 0x27]
                     @ ''s time to fix your projection or error handling code?'')),
       ((\<lambda>s. snd (flakyExecute 32767 None s)) ^^ MaxInt16) 0)"
    using r all by (intro processNotification_loop_exhausted) simp_all
  then show ?thesis
    unfolding flakyExecute_funpow
    by (simp add: processNotification_def MaxInt16_def flakyExecute_def)
qed

text \<open>
  Claim C6. When a call of the fold returns an error and the error callback answers an
  action that is none of Retry, Ignore, Fail and Fallthrough, \<open>processNotification\<close>
  returns that error to the caller at once, as it does when the callback answers Fail.
\<close>

theorem processNotification_unrecognized_is_fail:
  assumes "Execute notification s = (Some err, s')"
    and "projectionErrorHandler notification err = ProjectionUnrecognized a"
  shows "processNotification projectionErrorHandler Execute notification s = (Some err, s') \<and>
         processNotification projectionErrorHandler Execute notification s =
           processNotification (\<lambda>n e. ProjectionFail) Execute notification s \<and>
         (i < MaxInt16 \<longrightarrow>
            processNotification_loop projectionErrorHandler Execute notification i s = (Some err, s'))"
proof -
  have loop: "processNotification_loop h Execute notification j s = (Some err, s')"
    if "j < MaxInt16" and "resolveErrorAction h notification err = errorFail" for h j
    using that assms(1) by (subst processNotification_loop.simps) simp
  have pos: "0 < MaxInt16"
    by (simp add: MaxInt16_def)
  have u: "resolveErrorAction projectionErrorHandler notification err = errorFail"
    using assms(2) by (simp add: resolveErrorAction_def)
  have f: "resolveErrorAction (\<lambda>n e. ProjectionFail) notification err = errorFail"
    by (simp add: resolveErrorAction_def)
  show ?thesis
    using loop[OF pos u] loop[OF pos f] loop[OF _ u, of i]
    by (simp add: processNotification_def)
qed

theorem processNotification_unrecognized_is_fail_witness:
  "flakyExecute 1 (Some 8) 0 = (Some (ExternalError ''handler failed''), 1) \<and>
   answerUnrecognized (Some 8) (ExternalError ''handler failed'') = ProjectionUnrecognized 7 \<and>
   processNotification answerUnrecognized (flakyExecute 1) (Some 8) 0 =
     (Some (ExternalError ''handler failed''), 1)"
proof -
  have e: "flakyExecute 1 (Some 8) 0 = (Some (ExternalError ''handler failed''), 1)"
    by (simp add: flakyExecute_def)
  have u: "answerUnrecognized (Some 8) (ExternalError ''handler failed'') = ProjectionUnrecognized 7"
    by (simp add: answerUnrecognized_def)
  show ?thesis
    using processNotification_unrecognized_is_fail[of "flakyExecute 1" "Some 8" 0
        "ExternalError ''handler failed''" 1 answerUnrecognized 7 0, OF e u] e u
    by (intro conjI) simp_all
qed

section \<open>Draining a stream\<close>

lemma ReadEventStream_loop_yields:
  "yields n stream s = Some (items, e, s') \<Longrightarrow>
   ReadEventStream_loop stream messages messageNumbers s =
     Some (case e of
             Exhausted None \<Rightarrow> Inr (messages @ map fst items, messageNumbers @ map snd items)
           | Exhausted (Some err) \<Rightarrow> Inl err
           | MessageFailed err \<Rightarrow> Inl err,
           s')"
proof (induction n arbitrary: s items messages messageNumbers)
  case 0
  then show ?case by simp
next
  case (Suc n)
  obtain ok s1 where nx: "Next stream s = (ok, s1)"
    by (cases "Next stream s")
  show ?case
  proof (cases ok)
    case False
    with Suc.prems nx show ?thesis
      by (subst ReadEventStream_loop.simps) (auto split: option.splits)
  next
    case True
    obtain r s2 where msg: "Message stream s1 = (r, s2)"
      by (cases "Message stream s1")
    show ?thesis
    proof (cases r)
      case (Inl err)
      with Suc.prems nx True msg show ?thesis
        by (subst ReadEventStream_loop.simps) auto
    next
      case (Inr item)
      obtain m no where item: "item = (m, no)"
        by (cases item)
      from Suc.prems nx True msg Inr obtain rest where
        y: "yields n stream s2 = Some (rest, e, s')" and items: "items = item # rest"
        by (auto split: option.splits)
      show ?thesis
        using Suc.IH[OF y, of "messages @ [m]" "messageNumbers @ [no]"] nx True msg Inr
        by (subst ReadEventStream_loop.simps)
           (auto simp: items item split: ending.splits option.splits)
    qed
  qed
qed

lemma ReadEventStream_loop_ends:
  assumes "ReadEventStream_loop stream messages messageNumbers s = Some y"
  shows "\<exists>n items e. yields n stream s = Some (items, e, snd y)"
  using assms
proof (induction rule: ReadEventStream_loop.raw_induct[rotated 1, consumes 1])
  case (1 loop stream messages messageNumbers s y)
  obtain ok s1 where nx: "Next stream s = (ok, s1)"
    by (cases "Next stream s")
  show ?case
  proof (cases ok)
    case False
    with 1(2) nx have "yields (Suc 0) stream s = Some ([], Exhausted (Err stream s1), snd y)"
      by (auto split: option.splits)
    then show ?thesis by blast
  next
    case True
    obtain q s2 where msg: "Message stream s1 = (q, s2)"
      by (cases "Message stream s1")
    show ?thesis
    proof (cases q)
      case (Inl err)
      with 1(2) nx True msg have "yields (Suc 0) stream s = Some ([], MessageFailed err, snd y)"
        by auto
      then show ?thesis by blast
    next
      case (Inr item)
      obtain m no where item: "item = (m, no)"
        by (cases item)
      from 1(2) nx True msg Inr item
      have "loop stream (messages @ [m]) (messageNumbers @ [no]) s2 = Some y"
        by simp
      from 1(1)[OF this] obtain n items e where "yields n stream s2 = Some (items, e, snd y)"
        by blast
      then have "yields (Suc n) stream s = Some (item # items, e, snd y)"
        using nx True msg Inr by simp
      then show ?thesis by blast
    qed
  qed
qed

text \<open>
  Claim C8. On a stream whose successive \<^verbatim>\<open>Next\<close> and \<^verbatim>\<open>Message\<close> calls end after
  finitely many rounds, \<open>ReadEventStream\<close> returns: an error exactly when the calls
  ended in a failing \<^verbatim>\<open>Message\<close> call or with \<^verbatim>\<open>Err\<close> reporting an error after the
  last \<^verbatim>\<open>Next\<close>, and it is that error; otherwise the messages and the numbers the calls
  yielded, in order. It leaves the stream in the state the calls left. On no other
  stream does it return.
\<close>

theorem ReadEventStream_drains:
  "(yields n stream s = Some (items, e, s') \<longrightarrow>
      ReadEventStream stream s =
        Some (case e of
                Exhausted None \<Rightarrow> Inr (map fst items, map snd items)
              | Exhausted (Some err) \<Rightarrow> Inl err
              | MessageFailed err \<Rightarrow> Inl err,
              s') \<and>
      (isl (fst (the (ReadEventStream stream s))) \<longleftrightarrow>
         (\<exists>err. e = MessageFailed err \<or> e = Exhausted (Some err)))) \<and>
   (ReadEventStream stream s = Some y \<longrightarrow>
      (\<exists>n items e. yields n stream s = Some (items, e, snd y)))"
proof (intro conjI impI)
  assume y: "yields n stream s = Some (items, e, s')"
  show r: "ReadEventStream stream s =
        Some (case e of
                Exhausted None \<Rightarrow> Inr (map fst items, map snd items)
              | Exhausted (Some err) \<Rightarrow> Inl err
              | MessageFailed err \<Rightarrow> Inl err,
              s')"
    using ReadEventStream_loop_yields[OF y, of "[]" "[]"]
    by (simp add: ReadEventStream_def cong: ending.case_cong option.case_cong)
  show "isl (fst (the (ReadEventStream stream s))) \<longleftrightarrow>
         (\<exists>err. e = MessageFailed err \<or> e = Exhausted (Some err))"
    unfolding r by (auto split: ending.splits option.splits)
next
  assume "ReadEventStream stream s = Some y"
  then show "\<exists>n items e. yields n stream s = Some (items, e, snd y)"
    unfolding ReadEventStream_def by (rule ReadEventStream_loop_ends)
qed

theorem ReadEventStream_drains_witness:
  "ReadEventStream listStream
     \<lparr>remaining = [Inr (''opened'', 1), Inr (''credited'', 2)], current = None, failure = None\<rparr>
     = Some (Inr ([''opened'', ''credited''], [1, 2]),
             \<lparr>remaining = [], current = None, failure = None\<rparr>) \<and>
   ReadEventStream listStream
     \<lparr>remaining = [Inr (''opened'', 1)], current = None,
      failure = Some (ExternalError ''connection lost'')\<rparr>
     = Some (Inl (ExternalError ''connection lost''),
             \<lparr>remaining = [], current = None,
              failure = Some (ExternalError ''connection lost'')\<rparr>) \<and>
   ReadEventStream listStream
     \<lparr>remaining = [Inr (''opened'', 1), Inl (ExternalError ''unknown payload''),
                   Inr (''credited'', 3)],
      current = None, failure = None\<rparr>
     = Some (Inl (ExternalError ''unknown payload''),
             \<lparr>remaining = [Inr (''credited'', 3)],
              current = Some (Inl (ExternalError ''unknown payload'')), failure = None\<rparr>)"
proof -
  have a: "yields (Suc (Suc (Suc 0))) listStream
       \<lparr>remaining = [Inr (''opened'', 1), Inr (''credited'', 2)], current = None, failure = None\<rparr>
     = Some ([(''opened'', 1), (''credited'', 2)], Exhausted None,
             \<lparr>remaining = [], current = None, failure = None\<rparr>)"
    by (simp add: listStream_def)
  have b: "yields (Suc (Suc 0)) listStream
       \<lparr>remaining = [Inr (''opened'', 1)], current = None,
        failure = Some (ExternalError ''connection lost'')\<rparr>
     = Some ([(''opened'', 1)], Exhausted (Some (ExternalError ''connection lost'')),
             \<lparr>remaining = [], current = None,
              failure = Some (ExternalError ''connection lost'')\<rparr>)"
    by (simp add: listStream_def)
  have c: "yields (Suc (Suc 0)) listStream
       \<lparr>remaining = [Inr (''opened'', 1), Inl (ExternalError ''unknown payload''),
                     Inr (''credited'', 3)],
        current = None, failure = None\<rparr>
     = Some ([(''opened'', 1)], MessageFailed (ExternalError ''unknown payload''),
             \<lparr>remaining = [Inr (''credited'', 3)],
              current = Some (Inl (ExternalError ''unknown payload'')), failure = None\<rparr>)"
    by (simp add: listStream_def)
  show ?thesis
    using ReadEventStream_drains[THEN conjunct1, THEN mp, OF a, THEN conjunct1]
      ReadEventStream_drains[THEN conjunct1, THEN mp, OF b, THEN conjunct1]
      ReadEventStream_drains[THEN conjunct1, THEN mp, OF c, THEN conjunct1]
    by simp
qed

section \<open>Appending and creating\<close>

lemma exampleStore_built:
  "NewEventStore (Some exampleStrategy) (Some (simpleDB rejects rollbackError)) (Some Inr)
     = Inr (exampleStore rejects rollbackError)"
  by (simp add: NewEventStore_def exampleStore_def exampleStrategy_def ColumnNames_def)

lemma tableName_orders:
  "tableName (generateTableName (persistenceStrategy (exampleStore rejects rollbackError))) ''orders''
     = Inr ''events_orders''"
  by (simp add: exampleStore_def exampleStrategy_def tableName_def GenerateTableName_def
      ToLower_def isASCII_def isUpper_def allowed_def)

lemma AppendTo_empty:
  assumes "tableName (generateTableName (persistenceStrategy e)) streamName = Inr table"
    and "prepareData (persistenceStrategy e) [] (strategyState st) = (Inr data, c')"
  shows "AppendTo e streamName [] st =
     (case ExecContext (db e) (''INSERT INTO '' @ table @ '' ('' @ columns e @ '') VALUES ;'')
             data (dbState st) of
        (err, d') \<Rightarrow>
          (err, \<lparr>strategyState = c',
                 preparedInsertPlaceholder = preparedInsertPlaceholder st, dbState = d'\<rparr>))"
  using assms by (simp add: AppendTo_def prepareInsertValues_def)

text \<open>
  Claim C2 asks that \<open>AppendTo\<close> with an empty list of messages returns success and
  inserts nothing. The source has no return for the empty list: with no placeholders it
  still executes one statement, \<^verbatim>\<open>INSERT INTO <table> (<columns>) VALUES ;\<close>, and returns
  what the database answers. For the stream \<^verbatim>\<open>orders\<close> of the example store: a database
  that rejects this statement makes \<open>AppendTo\<close> return its error, and a database that
  accepts every statement has executed it.
\<close>

theorem AppendTo_empty_executes_statement:
  "AppendTo (exampleStore (rejectSuffix ''VALUES ;'' (ExternalError ''syntax error at or near ;'')) None)
     ''orders'' []
     \<lparr>strategyState = [], preparedInsertPlaceholder = Map.empty,
      dbState = \<lparr>durable = [], pending = None\<rparr>\<rparr>
     = (Some (ExternalError ''syntax error at or near ;''),
        \<lparr>strategyState = [], preparedInsertPlaceholder = Map.empty,
         dbState = \<lparr>durable = [], pending = None\<rparr>\<rparr>) \<and>
   AppendTo (exampleStore rejectNothing None) ''orders'' []
     \<lparr>strategyState = [], preparedInsertPlaceholder = Map.empty,
      dbState = \<lparr>durable = [], pending = None\<rparr>\<rparr>
     = (None,
        \<lparr>strategyState = [], preparedInsertPlaceholder = Map.empty,
         dbState = \<lparr>durable = [''INSERT INTO events_orders (event_id, event_name, payload, metadata, created_at) VALUES ;''],
                    pending = None\<rparr>\<rparr>)"
  by (simp add: AppendTo_def tableName_orders)
     (simp add: exampleStore_def exampleStrategy_def simpleDB_def PrepareData_def
       prepareInsertValues_def rejectSuffix_def rejectNothing_def ColumnNames_def)

text \<open>
  Claim C3 asks that, when a statement of \<open>Create\<close> fails, the effects of the statements
  executed before it are rolled back. The source opens a transaction but executes every
  statement on the handle, outside of it, so the rollback has nothing to undo. On the
  database of the examples, with the creation of the unique index failing: \<open>Create\<close>
  returns the original error after a rollback that succeeds, and the statement that
  created the table is still durable. When the rollback fails as well, the error
  returned names both errors, as the claim says.
\<close>

theorem Create_keeps_table_after_rollback:
  "Create (exampleStore (rejectPrefix ''CREATE UNIQUE INDEX'' (ExternalError ''could not create index'')) None)
     ''orders'' \<lparr>durable = [], pending = None\<rparr>
     = (Some (ExternalError ''could not create index''),
        \<lparr>durable = [hd (CreateSchema (quoteWith (CHR 0x22)) ''events_orders'')], pending = None\<rparr>) \<and>
   take 12 (hd (CreateSchema (quoteWith (CHR 0x22)) ''events_orders'')) = ''CREATE TABLE'' \<and>
   fst (Create (exampleStore (rejectPrefix ''CREATE UNIQUE INDEX'' (ExternalError ''could not create index''))
                  (Some (ExternalError ''rollback failed'')))
          ''orders'' \<lparr>durable = [], pending = None\<rparr>)
     = Some (Errorf (''error one: rollback failed'' @ [CHR 0x0A]
                     @ ''error two: could not create index''))"
  by code_simp

section \<open>The bank account\<close>

text \<open>
  Claim C9. Replaying AccountOpened, AccountCredited 100, AccountDebited 10 and
  AccountDebited 20 through \<open>Apply\<close> from a fresh account gives the balance 70; and
  \<open>OpenBankAccount\<close>, \<open>Deposit\<close> of 100, \<open>Withdraw\<close> of 10 and \<open>Withdraw\<close> of 20
  all return without error, leave the balance 70 and have recorded these four changes
  with the versions 1 to 4.
\<close>

theorem BankAccount_balance_70:
  "Balance (foldl Apply \<lparr>version = 0, recordedEvents = [], accountID = [], balance = 0\<rparr>
      [\<lparr>changeAggregateID = a, changeVersion = 1, changePayload = AccountOpened a\<rparr>,
       \<lparr>changeAggregateID = a, changeVersion = 2, changePayload = AccountCredited 100\<rparr>,
       \<lparr>changeAggregateID = a, changeVersion = 3, changePayload = AccountDebited 10\<rparr>,
       \<lparr>changeAggregateID = a, changeVersion = 4, changePayload = AccountDebited 20\<rparr>]) = 70 \<and>
   (case OpenBankAccount a of (err0, b0) \<Rightarrow>
    case Deposit b0 100 of (err1, b1) \<Rightarrow>
    case Withdraw b1 10 of (err2, b2) \<Rightarrow>
    case Withdraw b2 20 of (err3, b3) \<Rightarrow>
      err0 = None \<and> err1 = None \<and> err2 = None \<and> err3 = None \<and> Balance b3 = 70 \<and>
      recordedEvents b3 =
        [\<lparr>changeAggregateID = a, changeVersion = 1, changePayload = AccountOpened a\<rparr>,
         \<lparr>changeAggregateID = a, changeVersion = 2, changePayload = AccountCredited 100\<rparr>,
         \<lparr>changeAggregateID = a, changeVersion = 3, changePayload = AccountDebited 10\<rparr>,
         \<lparr>changeAggregateID = a, changeVersion = 4, changePayload = AccountDebited 20\<rparr>])"
  by (simp add: Balance_def Apply_def OpenBankAccount_def Deposit_def Withdraw_def
      RecordChange_def AggregateID_def Let_def)

end
